theory Spec2Isabelle
  imports Complex_Main
begin

section \<open>MQTT IoT health checker: arrival tracking, status and metrics\<close>

text \<open>
  A shallow embedding of \<^verbatim>\<open>mqtt_iot_healthcheck.py\<close>: the class
  \<^verbatim>\<open>MQTTHealthChecker\<close> (\<^verbatim>\<open>load_topics\<close>, \<^verbatim>\<open>on_message\<close>,
  \<^verbatim>\<open>get_status_data\<close>, \<^verbatim>\<open>_calculate_average_interval\<close>) and the Flask
  handler \<^verbatim>\<open>get_metrics\<close>. The MQTT client, the broker fields and the web
  server carry no computation of their own and are left out; the lock becomes
  the fact that every operation is one function from state to state.

  Python values are modelled as follows: \<^verbatim>\<open>str\<close> as \<^typ>\<open>string\<close>,
  \<^verbatim>\<open>int\<close> as \<^typ>\<open>int\<close>, \<^verbatim>\<open>float\<close> as exact rationals
  (\<^typ>\<open>rat\<close>; the binary rounding of floating-point arithmetic is not
  modelled), \<^verbatim>\<open>dict\<close> as a map, \<^verbatim>\<open>datetime\<close> as a record of its
  fields and \<^verbatim>\<open>timedelta\<close> as its total number of microseconds.
\<close>

subsection \<open>Decimal text\<close>

definition digit_char :: "nat \<Rightarrow> char" where
  "digit_char d = char_of (48 + d)"

definition digit_val :: "char \<Rightarrow> nat option" where
  "digit_val c =
     (let k = (of_char c :: nat) in if 48 \<le> k \<and> k \<le> 57 then Some (k - 48) else None)"

text \<open>\<^verbatim>\<open>str(n)\<close> for a non-negative integer.\<close>

function show_nat :: "nat \<Rightarrow> string" where
  "show_nat n = (if n < 10 then [digit_char n] else show_nat (n div 10) @ [digit_char (n mod 10)])"
  by pat_completeness auto
termination
  by (relation "measure (\<lambda>n. n)") auto

declare show_nat.simps [simp del]

text \<open>\<^verbatim>\<open>str(i)\<close> and \<^verbatim>\<open>"%d" % i\<close> for an integer.\<close>

definition show_int :: "int \<Rightarrow> string" where
  "show_int i = (if i < 0 then CHR ''-'' # show_nat (nat (- i)) else show_nat (nat i))"

text \<open>\<^verbatim>\<open>"%0wd" % n\<close> for a non-negative integer: zero padding on the left.\<close>

definition zero_pad :: "nat \<Rightarrow> nat \<Rightarrow> string" where
  "zero_pad w n = replicate (w - length (show_nat n)) CHR ''0'' @ show_nat n"

text \<open>The value of a non-empty string of decimal digits; \<open>None\<close> otherwise.\<close>

fun parse_digits :: "string \<Rightarrow> nat \<Rightarrow> nat option" where
  "parse_digits [] acc = Some acc"
| "parse_digits (c # cs) acc =
     (case digit_val c of None \<Rightarrow> None | Some d \<Rightarrow> parse_digits cs (10 * acc + d))"

definition parse_nat :: "string \<Rightarrow> nat option" where
  "parse_nat s = (if s = [] then None else parse_digits s 0)"

subsection \<open>Floats: formatting and parsing\<close>

datatype error = ValueError

text \<open>
  \<^verbatim>\<open>f"{x:.1f}"\<close>: the decimal with one digit after the point nearest to
  \<open>x\<close>, a tie going to the even neighbour, with the sign of \<open>x\<close> kept even when
  the digits are all zero (\<^verbatim>\<open>"-0.0"\<close>).
\<close>

definition round_half_even :: "rat \<Rightarrow> int" where
  "round_half_even x =
     (let f = \<lfloor>x\<rfloor>; d = x - of_int f
      in if d < 1 / 2 then f else if 1 / 2 < d then f + 1 else if even f then f else f + 1)"

definition format_1f :: "rat \<Rightarrow> string" where
  "format_1f x =
     (let n = nat \<bar>round_half_even (x * 10)\<bar>
      in (if x < 0 then ''-'' else '''') @ show_nat (n div 10) @ ''.'' @ show_nat (n mod 10))"

text \<open>
  \<^verbatim>\<open>float(s)\<close> on plain decimal literals: an optional minus sign, one or
  more digits, and optionally a point followed by digits. Every other string
  is a \<^verbatim>\<open>ValueError\<close> here (Python accepts a few more spellings, such as
  exponents and surrounding blanks, none of which this program produces).
\<close>

definition py_float :: "string \<Rightarrow> error + rat" where
  "py_float s =
     (let neg = (s \<noteq> [] \<and> hd s = CHR ''-'');
          body = (if neg then tl s else s);
          ip = takeWhile (\<lambda>c. c \<noteq> CHR ''.'') body;
          rest = dropWhile (\<lambda>c. c \<noteq> CHR ''.'') body;
          fp = (if rest = [] then [] else tl rest)
      in case (parse_nat ip, parse_digits fp 0) of
           (Some a, Some b) \<Rightarrow>
             (let v = of_nat a + of_nat b / 10 ^ length fp in Inr (if neg then - v else v))
         | _ \<Rightarrow> Inl ValueError)"

subsection \<open>Dates, times and durations\<close>

text \<open>
  \<^verbatim>\<open>datetime.datetime\<close> (naive, no time zone) with the calendar arithmetic
  of the standard library: \<^verbatim>\<open>_is_leap\<close>, \<^verbatim>\<open>_days_before_year\<close>,
  \<^verbatim>\<open>_days_in_month\<close>, \<^verbatim>\<open>_days_before_month\<close>, \<^verbatim>\<open>_ymd2ord\<close>.
\<close>

record datetime =
  year :: nat
  month :: nat
  day :: nat
  hour :: nat
  minute :: nat
  second :: nat
  microsecond :: nat

definition is_leap :: "nat \<Rightarrow> bool" where
  "is_leap y = (y mod 4 = 0 \<and> (y mod 100 \<noteq> 0 \<or> y mod 400 = 0))"

definition days_in_month :: "nat \<Rightarrow> nat \<Rightarrow> nat" where
  "days_in_month y m =
     (if m = 2 \<and> is_leap y then 29
      else [0, 31, 28, 31, 30, 31, 30, 31, 31, 30, 31, 30, 31] ! m)"

definition days_before_year :: "nat \<Rightarrow> int" where
  "days_before_year y =
     (let p = int y - 1 in p * 365 + p div 4 - p div 100 + p div 400)"

definition days_before_month :: "nat \<Rightarrow> nat \<Rightarrow> int" where
  "days_before_month y m =
     int ([0, 0, 31, 59, 90, 120, 151, 181, 212, 243, 273, 304, 334] ! m)
       + (if 2 < m \<and> is_leap y then 1 else 0)"

definition ymd2ord :: "nat \<Rightarrow> nat \<Rightarrow> nat \<Rightarrow> int" where
  "ymd2ord y m d = days_before_year y + days_before_month y m + int d"

text \<open>What the constructor of \<^verbatim>\<open>datetime\<close> enforces on its fields.\<close>

definition valid_datetime :: "datetime \<Rightarrow> bool" where
  "valid_datetime t =
     (1 \<le> year t \<and> year t \<le> 9999 \<and> 1 \<le> month t \<and> month t \<le> 12
      \<and> 1 \<le> day t \<and> day t \<le> days_in_month (year t) (month t)
      \<and> hour t < 24 \<and> minute t < 60 \<and> second t < 60 \<and> microsecond t < 1000000)"

text \<open>
  A \<^verbatim>\<open>timedelta\<close> is normalised to days, seconds and microseconds; it is
  held here as the total number of microseconds, which orders and compares
  the same way.
\<close>

type_synonym timedelta = int

definition to_micros :: "datetime \<Rightarrow> int" where
  "to_micros t =
     (ymd2ord (year t) (month t) (day t) * 86400
        + int (second t + minute t * 60 + hour t * 3600)) * 1000000
     + int (microsecond t)"

text \<open>\<^verbatim>\<open>a - b\<close> on two datetimes.\<close>

definition dt_sub :: "datetime \<Rightarrow> datetime \<Rightarrow> timedelta" where
  "dt_sub a b = to_micros a - to_micros b"

text \<open>\<^verbatim>\<open>timedelta(hours=1)\<close>.\<close>

definition one_hour :: timedelta where
  "one_hour = 3600000000"

text \<open>\<^verbatim>\<open>timedelta.total_seconds()\<close>.\<close>

definition total_seconds :: "timedelta \<Rightarrow> rat" where
  "total_seconds d = of_int d / 1000000"

text \<open>
  \<^verbatim>\<open>str(timedelta)\<close>: \<^verbatim>\<open>[D day[s], ]H:MM:SS[.UUUUUU]\<close>, where the
  days carry the sign and the rest is non-negative.
\<close>

definition str_timedelta :: "timedelta \<Rightarrow> string" where
  "str_timedelta d =
     (let days = d div 86400000000;
          r = d mod 86400000000;
          secs = r div 1000000;
          us = r mod 1000000;
          mm = secs div 60; ss = secs mod 60;
          hh = mm div 60; mi = mm mod 60;
          s = show_int hh @ '':'' @ zero_pad 2 (nat mi) @ '':'' @ zero_pad 2 (nat ss);
          s1 = (if days \<noteq> 0
                then show_int days @ '' day'' @ (if \<bar>days\<bar> \<noteq> 1 then ''s'' else '''') @ '', '' @ s
                else s)
      in if us \<noteq> 0 then s1 @ ''.'' @ zero_pad 6 (nat us) else s1)"

text \<open>
  \<^verbatim>\<open>t.strftime('%Y-%m-%d %H:%M:%S')\<close>. The year is written with four
  digits, as it is for the years the clock of a running system gives.
\<close>

definition strftime :: "datetime \<Rightarrow> string" where
  "strftime t =
     zero_pad 4 (year t) @ ''-'' @ zero_pad 2 (month t) @ ''-'' @ zero_pad 2 (day t) @ '' ''
       @ zero_pad 2 (hour t) @ '':'' @ zero_pad 2 (minute t) @ '':'' @ zero_pad 2 (second t)"

text \<open>
  \<^verbatim>\<open>datetime.strptime(s, '%Y-%m-%d %H:%M:%S')\<close> on the fixed-width layout
  that \<^const>\<open>strftime\<close> writes; anything else, and any field out of range, is
  a \<^verbatim>\<open>ValueError\<close>.
\<close>

definition strptime :: "string \<Rightarrow> error + datetime" where
  "strptime s =
     (if length s = 19 \<and> s ! 4 = CHR ''-'' \<and> s ! 7 = CHR ''-'' \<and> s ! 10 = CHR '' ''
         \<and> s ! 13 = CHR '':'' \<and> s ! 16 = CHR '':''
      then (case (parse_nat (take 4 s), parse_nat (take 2 (drop 5 s)),
                  parse_nat (take 2 (drop 8 s)), parse_nat (take 2 (drop 11 s)),
                  parse_nat (take 2 (drop 14 s)), parse_nat (take 2 (drop 17 s))) of
              (Some y, Some mo, Some d, Some h, Some mi, Some sc) \<Rightarrow>
                (let t = \<lparr>year = y, month = mo, day = d, hour = h, minute = mi,
                          second = sc, microsecond = 0\<rparr>
                 in if valid_datetime t then Inr t else Inl ValueError)
            | _ \<Rightarrow> Inl ValueError)
      else Inl ValueError)"

subsection \<open>The health checker's state\<close>

text \<open>
  The fields of \<^verbatim>\<open>MQTTHealthChecker\<close> that the tracker reads and writes.
  A fresh object has no topics and empty dictionaries.
\<close>

record checker =
  topics :: "string list"
  topic_descriptions :: "string \<rightharpoonup> string"
  topic_types :: "string \<rightharpoonup> string"
  topic_timestamps :: "string \<rightharpoonup> datetime"
  topic_counters :: "string \<rightharpoonup> int"
  topic_message_history :: "string \<rightharpoonup> datetime list"

definition max_history_size :: nat where
  "max_history_size = 100"

definition init_checker :: checker where
  "init_checker =
     \<lparr>topics = [], topic_descriptions = Map.empty, topic_types = Map.empty,
      topic_timestamps = Map.empty, topic_counters = Map.empty,
      topic_message_history = Map.empty\<rparr>"

subsection \<open>Loading the topics\<close>

text \<open>
  What \<^verbatim>\<open>open\<close> and \<^verbatim>\<open>json.load\<close> hand to \<^verbatim>\<open>load_topics\<close>: the
  file is missing, it is not JSON, or it is a JSON object. Of the object only
  the key \<^verbatim>\<open>topics\<close> is read (\<open>None\<close>: the key is absent), and of its
  elements the strings and the objects, whose values are taken to be strings
  (an object is the list of its pairs, with one value for a key);
  elements of any other JSON type match neither \<^verbatim>\<open>isinstance\<close> test.
\<close>

datatype topic_item = ItemStr string | ItemDict "(string \<times> string) list" | ItemOther

datatype topics_source = FileNotFound | JSONDecodeError | Config "topic_item list option"

text \<open>\<^verbatim>\<open>d.get(k, default)\<close>.\<close>

definition dict_get :: "('k \<times> 'v) list \<Rightarrow> 'k \<Rightarrow> 'v \<Rightarrow> 'v" where
  "dict_get d k dflt = (case map_of d k of None \<Rightarrow> dflt | Some v \<Rightarrow> v)"

text \<open>The body of the loop over \<^verbatim>\<open>topics_data\<close>.\<close>

fun load_item :: "checker \<Rightarrow> topic_item \<Rightarrow> checker" where
  "load_item s (ItemStr tp) = s\<lparr>topics := topics s @ [tp]\<rparr>"
| "load_item s (ItemDict item) =
     (let tp = dict_get item ''topic'' '''';
          description = dict_get item ''description'' '''';
          ty = dict_get item ''type'' ''''
      in if tp \<noteq> '''' then
           (let s1 = s\<lparr>topics := topics s @ [tp]\<rparr>;
                s2 = (if description \<noteq> ''''
                      then s1\<lparr>topic_descriptions := (topic_descriptions s1)(tp \<mapsto> description)\<rparr>
                      else s1)
            in if ty \<noteq> '''' then s2\<lparr>topic_types := (topic_types s2)(tp \<mapsto> ty)\<rparr> else s2)
         else s)"
| "load_item s ItemOther = s"

definition load_topics :: "topics_source \<Rightarrow> checker \<Rightarrow> checker" where
  "load_topics src s =
     (case src of
        Config c \<Rightarrow>
          foldl load_item
            (s\<lparr>topics := [], topic_descriptions := Map.empty, topic_types := Map.empty\<rparr>)
            (case c of None \<Rightarrow> [] | Some topics_data \<Rightarrow> topics_data)
      | FileNotFound \<Rightarrow>
          s\<lparr>topics := [], topic_descriptions := Map.empty, topic_types := Map.empty,
            topic_message_history := Map.empty\<rparr>
      | JSONDecodeError \<Rightarrow>
          s\<lparr>topics := [], topic_descriptions := Map.empty, topic_types := Map.empty,
            topic_message_history := Map.empty\<rparr>)"

subsection \<open>Recording an arrival\<close>

text \<open>
  \<^verbatim>\<open>on_message\<close>, with the topic of the message and the value of
  \<^verbatim>\<open>datetime.now()\<close> as arguments. The slice \<^verbatim>\<open>h[-N:]\<close> of a list
  longer than \<open>N\<close> is its last \<open>N\<close> elements.
\<close>

definition on_message :: "checker \<Rightarrow> string \<Rightarrow> datetime \<Rightarrow> checker" where
  "on_message s tp current_time =
     (let ts = (topic_timestamps s)(tp \<mapsto> current_time);
          cs = (topic_counters s)(tp \<mapsto> (case topic_counters s tp of None \<Rightarrow> 0 | Some c \<Rightarrow> c) + 1);
          h0 = (case topic_message_history s tp of None \<Rightarrow> [] | Some h \<Rightarrow> h);
          h1 = h0 @ [current_time];
          h2 = (if max_history_size < length h1
                then drop (length h1 - max_history_size) h1 else h1)
      in s\<lparr>topic_timestamps := ts, topic_counters := cs,
           topic_message_history := (topic_message_history s)(tp \<mapsto> h2)\<rparr>)"

text \<open>A run of the tracker: the arrivals in the order the lock serialises them.\<close>

definition record_all :: "checker \<Rightarrow> (string \<times> datetime) list \<Rightarrow> checker" where
  "record_all s evs = foldl (\<lambda>s (tp, t). on_message s tp t) s evs"

subsection \<open>The average interval\<close>

text \<open>The loop \<^verbatim>\<open>for i in range(1, len(timestamps))\<close> that fills \<^verbatim>\<open>intervals\<close>.\<close>

function intervals_loop :: "datetime list \<Rightarrow> nat \<Rightarrow> rat list \<Rightarrow> rat list" where
  "intervals_loop timestamps i intervals =
     (if i < length timestamps
      then intervals_loop timestamps (i + 1)
             (intervals @ [total_seconds (dt_sub (timestamps ! i) (timestamps ! (i - 1)))])
      else intervals)"
  by pat_completeness auto
termination
  by (relation "measure (\<lambda>(timestamps, i, intervals). length timestamps - i)") auto

declare intervals_loop.simps [simp del]

text \<open>The formatting at the end of \<^verbatim>\<open>_calculate_average_interval\<close>.\<close>

definition format_interval :: "rat \<Rightarrow> string" where
  "format_interval avg_seconds =
     (if avg_seconds < 60 then format_1f avg_seconds @ ''s''
      else if avg_seconds < 3600 then format_1f (avg_seconds / 60) @ ''m''
      else if avg_seconds < 86400 then format_1f (avg_seconds / 3600) @ ''h''
      else format_1f (avg_seconds / 86400) @ ''d'')"

definition calculate_average_interval :: "checker \<Rightarrow> string \<Rightarrow> string" where
  "calculate_average_interval s tp =
     (case topic_message_history s tp of
        None \<Rightarrow> ''No data''
      | Some timestamps \<Rightarrow>
          if length timestamps < 2 then ''No data''
          else (let intervals = intervals_loop timestamps 1 []
                in if intervals = [] then ''No data''
                   else format_interval (sum_list intervals / of_nat (length intervals))))"

subsection \<open>The status of every topic\<close>

record status_view =
  topic :: string
  display_name :: string
  topic_type :: string
  last_seen :: string
  time_since :: string
  message_count :: int
  avg_interval :: string
  status :: string

text \<open>
  The body of the loop of \<^verbatim>\<open>get_status_data\<close>. A datetime is always
  true in a condition; a timedelta is true unless it is zero.
  \<^verbatim>\<open>s.split('.')[0]\<close> is the text before the first point.
\<close>

definition status_entry :: "checker \<Rightarrow> datetime \<Rightarrow> string \<Rightarrow> status_view" where
  "status_entry s current_time tp =
     (let (seen, time_diff, st) =
            (case topic_timestamps s tp of
               Some t \<Rightarrow>
                 (let d = dt_sub current_time t
                  in (Some t, Some d, if d < one_hour then ''healthy'' else ''unhealthy''))
             | None \<Rightarrow> (None, None, ''never_seen''));
          count = (case topic_counters s tp of None \<Rightarrow> 0 | Some c \<Rightarrow> c);
          name = (case topic_descriptions s tp of None \<Rightarrow> tp | Some d \<Rightarrow> d);
          ty = (case topic_types s tp of None \<Rightarrow> ''unknown'' | Some y \<Rightarrow> y);
          avg = calculate_average_interval s tp
      in \<lparr>topic = tp, display_name = name, topic_type = ty,
          last_seen = (case seen of Some t \<Rightarrow> strftime t | None \<Rightarrow> ''Never''),
          time_since =
            (case time_diff of
               Some d \<Rightarrow>
                 if d \<noteq> 0 then takeWhile (\<lambda>c. c \<noteq> CHR ''.'') (str_timedelta d) else ''Never''
             | None \<Rightarrow> ''Never''),
          message_count = count, avg_interval = avg, status = st\<rparr>)"

definition get_status_data :: "checker \<Rightarrow> datetime \<Rightarrow> status_view list" where
  "get_status_data s current_time = map (status_entry s current_time) (topics s)"

subsection \<open>The metrics document\<close>

text \<open>
  Two library functions are parameters of the export: \<open>timestamp\<close>, the
  method \<^verbatim>\<open>datetime.timestamp()\<close>, whose value for a naive datetime depends
  on the time zone of the host, and \<open>repr\<close>, the text Python prints for a
  float inside an f-string.
\<close>

datatype pynum = PyInt int | PyFloat rat

definition num_str :: "(rat \<Rightarrow> string) \<Rightarrow> pynum \<Rightarrow> string" where
  "num_str repr v = (case v of PyInt i \<Rightarrow> show_int i | PyFloat x \<Rightarrow> repr x)"

definition num_pos :: "pynum \<Rightarrow> bool" where
  "num_pos v = (case v of PyInt i \<Rightarrow> 0 < i | PyFloat x \<Rightarrow> 0 < x)"

text \<open>\<^verbatim>\<open>s.replace(a, b)\<close> for single characters, \<^verbatim>\<open>s.endswith(c)\<close>.\<close>

definition replace_char :: "char \<Rightarrow> char \<Rightarrow> string \<Rightarrow> string" where
  "replace_char a b s = map (\<lambda>c. if c = a then b else c) s"

definition endswith :: "string \<Rightarrow> char \<Rightarrow> bool" where
  "endswith s c = (s \<noteq> [] \<and> last s = c)"

text \<open>The value of the local \<^verbatim>\<open>safe_topic\<close>.\<close>

definition sanitize_topic :: "string \<Rightarrow> string" where
  "sanitize_topic tp =
     replace_char CHR '' '' CHR ''_''
       (replace_char CHR '':'' CHR ''_''
         (replace_char CHR ''.'' CHR ''_''
           (replace_char CHR ''-'' CHR ''_''
             (replace_char CHR ''/'' CHR ''_'' tp))))"

text \<open>"Convert average interval to seconds": \<^verbatim>\<open>s[:-1]\<close> drops the unit.\<close>

definition avg_interval_to_seconds :: "string \<Rightarrow> error + pynum" where
  "avg_interval_to_seconds avg_interval_str =
     (if avg_interval_str \<noteq> ''No data'' then
        (if endswith avg_interval_str CHR ''s'' then
           map_sum id PyFloat (py_float (butlast avg_interval_str))
         else if endswith avg_interval_str CHR ''m'' then
           map_sum id (\<lambda>x. PyFloat (x * 60)) (py_float (butlast avg_interval_str))
         else if endswith avg_interval_str CHR ''h'' then
           map_sum id (\<lambda>x. PyFloat (x * 3600)) (py_float (butlast avg_interval_str))
         else if endswith avg_interval_str CHR ''d'' then
           map_sum id (\<lambda>x. PyFloat (x * 86400)) (py_float (butlast avg_interval_str))
         else Inr (PyInt 0))
      else Inr (PyInt 0))"

text \<open>"Calculate timestamp for last seen".\<close>

definition last_seen_to_timestamp :: "(datetime \<Rightarrow> rat) \<Rightarrow> string \<Rightarrow> error + pynum" where
  "last_seen_to_timestamp timestamp seen =
     (if seen \<noteq> ''Never''
      then map_sum id (\<lambda>t. PyFloat (timestamp t)) (strptime seen)
      else Inr (PyInt 0))"

definition metric_labels :: "string \<Rightarrow> string \<Rightarrow> string \<Rightarrow> string" where
  \<open>metric_labels tp name ty =
     ''topic="'' @ tp @ ''",display_name="'' @ name @ ''",type="'' @ ty @ ''"''\<close>

definition metric_line :: "string \<Rightarrow> string \<Rightarrow> string \<Rightarrow> string" where
  "metric_line name labels v = name @ ''{'' @ labels @ ''} '' @ v"

text \<open>The body of the loop over \<^verbatim>\<open>status_data\<close>: the lines of one topic.\<close>

definition topic_metrics ::
  "(datetime \<Rightarrow> rat) \<Rightarrow> (rat \<Rightarrow> string) \<Rightarrow> status_view \<Rightarrow> error + string list" where
  "topic_metrics timestamp repr topic_data =
     (let tp = topic topic_data;
          safe_topic = sanitize_topic tp;
          name = display_name topic_data;
          ty = topic_type topic_data;
          count = message_count topic_data;
          st = status topic_data
      in case last_seen_to_timestamp timestamp (last_seen topic_data) of
           Inl e \<Rightarrow> Inl e
         | Inr last_seen_timestamp \<Rightarrow>
             (case avg_interval_to_seconds (avg_interval topic_data) of
                Inl e \<Rightarrow> Inl e
              | Inr avg_interval_seconds \<Rightarrow>
                  (let labels = metric_labels tp name ty;
                       healthy_value = (if st = ''healthy'' then 1 else 0 :: int)
                   in Inr ([metric_line ''mqtt_topic_last_seen_timestamp'' labels
                              (num_str repr last_seen_timestamp),
                            metric_line ''mqtt_topic_message_count'' labels (show_int count),
                            metric_line ''mqtt_topic_healthy'' labels (show_int healthy_value)]
                           @ (if num_pos avg_interval_seconds
                              then [metric_line ''mqtt_topic_avg_interval_seconds'' labels
                                      (num_str repr avg_interval_seconds)]
                              else [])))))"

fun metrics_loop ::
  "(datetime \<Rightarrow> rat) \<Rightarrow> (rat \<Rightarrow> string) \<Rightarrow> status_view list \<Rightarrow> string list
     \<Rightarrow> error + string list" where
  "metrics_loop timestamp repr [] metrics_lines = Inr metrics_lines"
| "metrics_loop timestamp repr (topic_data # rest) metrics_lines =
     (case topic_metrics timestamp repr topic_data of
        Inl e \<Rightarrow> Inl e
      | Inr ls \<Rightarrow> metrics_loop timestamp repr rest (metrics_lines @ ls))"

definition header_lines :: "string list" where
  "header_lines =
     [''# HELP mqtt_topic_last_seen_timestamp Unix timestamp of last message received for each topic'',
      ''# TYPE mqtt_topic_last_seen_timestamp gauge'',
      ''# HELP mqtt_topic_message_count Total number of messages received for each topic'',
      ''# TYPE mqtt_topic_message_count counter'',
      ''# HELP mqtt_topic_healthy Whether the topic is considered healthy (1) or not (0)'',
      ''# TYPE mqtt_topic_healthy gauge'',
      ''# HELP mqtt_topic_avg_interval_seconds Average interval between messages in seconds'',
      ''# TYPE mqtt_topic_avg_interval_seconds gauge'']"

text \<open>\<^verbatim>\<open>'\n'.join(lines)\<close>.\<close>

fun join_lines :: "string list \<Rightarrow> string" where
  "join_lines [] = []"
| "join_lines [l] = l"
| "join_lines (l # ls) = l @ [CHR 0x0A] @ join_lines ls"

text \<open>
  \<^verbatim>\<open>get_metrics\<close>: the global \<^verbatim>\<open>health_checker\<close> (\<open>None\<close> before
  \<^verbatim>\<open>main\<close> has set it) and the value of \<^verbatim>\<open>datetime.now()\<close> inside
  \<^verbatim>\<open>get_status_data\<close> are arguments; the result is the body of the
  response, or the exception that escapes.
\<close>

definition get_metrics ::
  "(datetime \<Rightarrow> rat) \<Rightarrow> (rat \<Rightarrow> string) \<Rightarrow> checker option \<Rightarrow> datetime \<Rightarrow> error + string" where
  "get_metrics timestamp repr health_checker now =
     (case health_checker of
        None \<Rightarrow> Inr (''# No health checker initialized'' @ [CHR 0x0A])
      | Some s \<Rightarrow>
          (case metrics_loop timestamp repr (get_status_data s now) header_lines of
             Inl e \<Rightarrow> Inl e
           | Inr metrics_lines \<Rightarrow> Inr (join_lines metrics_lines @ [CHR 0x0A])))"

subsection \<open>The average interval as the specification words it\<close>

text \<open>
  The mean of the differences, in seconds, between every entry of the history
  and the entry before it.
\<close>

definition mean_consecutive_delta :: "datetime list \<Rightarrow> rat" where
  "mean_consecutive_delta ts =
     sum_list (map (\<lambda>(a, b). total_seconds (dt_sub b a)) (zip ts (tl ts)))
       / of_nat (length ts - 1)"

subsection \<open>Sample runs\<close>

text \<open>Three arrivals on one topic, 30 and then 60 seconds apart.\<close>

definition ex_t0 :: datetime where
  "ex_t0 = \<lparr>year = 2024, month = 3, day = 1, hour = 10, minute = 0, second = 0,
            microsecond = 0\<rparr>"

definition ex_t30 :: datetime where
  "ex_t30 = \<lparr>year = 2024, month = 3, day = 1, hour = 10, minute = 0, second = 30,
             microsecond = 0\<rparr>"

definition ex_t90 :: datetime where
  "ex_t90 = \<lparr>year = 2024, month = 3, day = 1, hour = 10, minute = 1, second = 30,
             microsecond = 0\<rparr>"

definition ex_three :: checker where
  "ex_three =
     record_all (init_checker\<lparr>topics := [''b'']\<rparr>)
       [(''b'', ex_t0), (''b'', ex_t30), (''b'', ex_t90)]"

text \<open>One hour after the last of them.\<close>

definition ex_hour_later :: datetime where
  "ex_hour_later = \<lparr>year = 2024, month = 3, day = 1, hour = 11, minute = 1, second = 30,
                    microsecond = 0\<rparr>"

text \<open>The arrival times on one topic among the recorded arrivals, in their order.\<close>

definition arrivals_on :: "string \<Rightarrow> (string \<times> datetime) list \<Rightarrow> datetime list" where
  "arrivals_on tp evs = map snd (filter (\<lambda>e. fst e = tp) evs)"

subsection \<open>The registry as the specification words it\<close>

text \<open>
  The identifier an element of the configuration contributes: a bare string
  is its own identifier, a structured entry contributes its \<^verbatim>\<open>topic\<close>
  unless that is missing or empty, anything else contributes nothing.
\<close>

fun accepted_topic :: "topic_item \<Rightarrow> string option" where
  "accepted_topic (ItemStr tp) = Some tp"
| "accepted_topic (ItemDict item) =
     (case map_of item ''topic'' of
        None \<Rightarrow> None
      | Some tp \<Rightarrow> if tp = '''' then None else Some tp)"
| "accepted_topic ItemOther = None"

text \<open>A configuration with an entry without identifier, a legacy entry and a full entry.\<close>

definition ex_config :: "topic_item list" where
  "ex_config =
     [ItemDict [(''topic'', ''''), (''description'', ''nameless'')],
      ItemStr ''a'',
      ItemDict [(''description'', ''no topic'')],
      ItemDict [(''topic'', ''c''), (''description'', ''Cellar''), (''type'', ''sensor'')]]"

subsection \<open>The exported average as a number\<close>

text \<open>
  The number that one digit after the point can show, and the seconds that the
  humanized average stands for when it is read back with its unit.
\<close>

definition round_1f :: "rat \<Rightarrow> rat" where
  "round_1f y = of_int (round_half_even (y * 10)) / 10"

definition displayed_seconds :: "rat \<Rightarrow> rat" where
  "displayed_seconds x =
     (if x < 60 then round_1f x
      else if x < 3600 then round_1f (x / 60) * 60
      else if x < 86400 then round_1f (x / 3600) * 3600
      else round_1f (x / 86400) * 86400)"

subsection \<open>Sample library functions\<close>

text \<open>
  \<^verbatim>\<open>timestamp()\<close> on a host whose time zone is UTC: the seconds since
  1970-01-01 00:00:00. In the sample runs the floats that are printed have at
  most one digit after the point, where Python's \<^verbatim>\<open>repr\<close> writes what
  \<^const>\<open>format_1f\<close> writes.
\<close>

definition utc_timestamp :: "datetime \<Rightarrow> rat" where
  "utc_timestamp t =
     total_seconds (dt_sub t \<lparr>year = 1970, month = 1, day = 1, hour = 0, minute = 0,
                              second = 0, microsecond = 0\<rparr>)"

text \<open>A topic whose name needs sanitizing, before any arrival.\<close>

definition ex_sensors :: checker where
  "ex_sensors = load_topics (Config (Some [ItemStr ''sensors/temp one''])) init_checker"





text \<open>The third line that the export writes for this topic.\<close>

definition ex_sensors_healthy_line :: string where
  \<open>ex_sensors_healthy_line =
     ''mqtt_topic_healthy{topic="sensors/temp one",display_name="sensors/temp one",type="unknown"} 0''\<close>

section \<open>Properties\<close>

subsection \<open>Decimal text\<close>

lemma show_nat_digit: "n < 10 \<Longrightarrow> show_nat n = [digit_char n]"
  by (subst show_nat.simps) simp

lemma show_nat_two:
  "10 \<le> n \<Longrightarrow> n < 100 \<Longrightarrow> show_nat n = [digit_char (n div 10), digit_char (n mod 10)]"
  by (subst show_nat.simps) (simp add: show_nat_digit)

lemma length_zero_pad: "w \<le> length (zero_pad w n)"
  by (simp add: zero_pad_def)

lemma length_strftime: "19 \<le> length (strftime t)"
proof -
  have "4 \<le> length (zero_pad 4 (year t))" "2 \<le> length (zero_pad 2 (month t))"
    "2 \<le> length (zero_pad 2 (day t))" "2 \<le> length (zero_pad 2 (hour t))"
    "2 \<le> length (zero_pad 2 (minute t))" "2 \<le> length (zero_pad 2 (second t))"
    by (rule length_zero_pad)+
  then show ?thesis by (simp add: strftime_def)
qed

lemma strftime_not_Never: "strftime t \<noteq> ''Never''"
proof
  assume "strftime t = ''Never''"
  then have "length (strftime t) = 5" by simp
  with length_strftime [of t] show False by simp
qed

subsection \<open>The sample runs\<close>

lemma ex_three_history: "topic_message_history ex_three ''b'' = Some [ex_t0, ex_t30, ex_t90]"
  by (simp add: ex_three_def record_all_def on_message_def init_checker_def max_history_size_def)

lemma ex_three_timestamp: "topic_timestamps ex_three ''b'' = Some ex_t90"
  by (simp add: ex_three_def record_all_def on_message_def init_checker_def max_history_size_def)

lemma ex_three_topics: "topics ex_three = [''b'']"
  by (simp add: ex_three_def record_all_def on_message_def init_checker_def max_history_size_def)

lemma ex_t30_delta: "dt_sub ex_t30 ex_t0 = 30000000"
  by (simp add: dt_sub_def to_micros_def ex_t0_def ex_t30_def)

lemma ex_t90_delta: "dt_sub ex_t90 ex_t0 = 90000000"
  by (simp add: dt_sub_def to_micros_def ex_t0_def ex_t90_def)

lemma ex_hour_later_delta: "dt_sub ex_hour_later ex_t90 = one_hour"
  by (simp add: dt_sub_def to_micros_def ex_hour_later_def ex_t90_def one_hour_def)

subsection \<open>The average interval\<close>

lemma intervals_loop_eq:
  "intervals_loop ts i acc =
     acc @ map (\<lambda>j. total_seconds (dt_sub (ts ! j) (ts ! (j - 1)))) [i..<length ts]"
proof (induction ts i acc rule: intervals_loop.induct)
  case (1 ts i acc)
  show ?case
  proof (cases "i < length ts")
    case True
    then show ?thesis
      using "1" by (subst intervals_loop.simps) (simp add: upt_conv_Cons)
  next
    case False
    then show ?thesis by (subst intervals_loop.simps) simp
  qed
qed

lemma consecutive_pairs:
  "map (\<lambda>j. f (ts ! j) (ts ! (j - Suc 0))) [Suc 0..<length ts]
     = map (\<lambda>(a, b). f b a) (zip ts (tl ts))"
  by (rule nth_equalityI) (auto simp: nth_tl)

lemma intervals_loop_pairs:
  "intervals_loop ts (Suc 0) [] = map (\<lambda>(a, b). total_seconds (dt_sub b a)) (zip ts (tl ts))"
  using consecutive_pairs [of "\<lambda>x y. total_seconds (dt_sub x y)" ts]
  by (simp add: intervals_loop_eq)

lemma intervals_loop_mean:
  "sum_list (intervals_loop ts (Suc 0) []) / of_nat (length (intervals_loop ts (Suc 0) []))
     = mean_consecutive_delta ts"
  by (simp add: intervals_loop_pairs mean_consecutive_delta_def)

lemma intervals_loop_nonempty: "\<not> length ts < 2 \<Longrightarrow> intervals_loop ts (Suc 0) [] \<noteq> []"
  by (cases ts; cases "tl ts") (auto simp: intervals_loop_pairs)

lemma calculate_average_interval_eq:
  "calculate_average_interval s tp =
     (case topic_message_history s tp of
        None \<Rightarrow> ''No data''
      | Some ts \<Rightarrow>
          if length ts < 2 then ''No data'' else format_interval (mean_consecutive_delta ts))"
  by (simp add: calculate_average_interval_def intervals_loop_mean intervals_loop_nonempty
      Let_def split: option.splits)

lemma format_interval_45: "format_interval 45 = ''45.0s''"
  by code_simp


lemma average_30_then_60:
  assumes "topic_message_history s tp = Some [a, b, c]"
    and "dt_sub b a = 30000000" and "dt_sub c a = 90000000"
  shows "mean_consecutive_delta [a, b, c] = 45"
    and "calculate_average_interval s tp = ''45.0s''"
proof -
  have cb: "dt_sub c b = 60000000"
    using assms(2,3) by (simp add: dt_sub_def)
  show m: "mean_consecutive_delta [a, b, c] = 45"
    using assms(2) cb by (simp add: mean_consecutive_delta_def total_seconds_def)
  show "calculate_average_interval s tp = ''45.0s''"
    using assms(1) m by (simp add: calculate_average_interval_eq format_interval_45)
qed

text \<open>
  C2. A history \<open>[t, t + 30 s, t + 90 s]\<close> has the consecutive differences 30 s
  and 60 s; their mean is 45 seconds, and the average interval is rendered as
  \<^verbatim>\<open>45.0s\<close>.
\<close>

theorem average_interval_of_30_and_60:
  "topic_message_history s tp = Some [a, b, c] \<Longrightarrow> dt_sub b a = 30000000
     \<Longrightarrow> dt_sub c a = 90000000
     \<Longrightarrow> mean_consecutive_delta [a, b, c] = 45 \<and> calculate_average_interval s tp = ''45.0s''"
  by (simp add: average_30_then_60)

theorem average_interval_of_30_and_60_witness:
  "topic_message_history ex_three ''b'' = Some [ex_t0, ex_t30, ex_t90]
     \<and> dt_sub ex_t30 ex_t0 = 30000000 \<and> dt_sub ex_t90 ex_t0 = 90000000
     \<and> mean_consecutive_delta [ex_t0, ex_t30, ex_t90] = 45
     \<and> calculate_average_interval ex_three ''b'' = ''45.0s''"
  using average_interval_of_30_and_60 [OF ex_three_history ex_t30_delta ex_t90_delta]
  by (simp add: ex_three_history ex_t30_delta ex_t90_delta)

text \<open>
  A mean of 30 seconds, rendered as \<^verbatim>\<open>30.0s\<close>, is not what the sample
  run with these three arrivals gives.
\<close>

theorem average_interval_30s_counterexample:
  "\<not> (mean_consecutive_delta [ex_t0, ex_t30, ex_t90] = 30
        \<and> calculate_average_interval ex_three ''b'' = ''30.0s'')"
  using average_30_then_60 [OF ex_three_history ex_t30_delta ex_t90_delta] by simp



subsection \<open>The status of a topic\<close>

lemma status_of_entry:
  "status (status_entry s now tp) =
     (case topic_timestamps s tp of
        None \<Rightarrow> ''never_seen''
      | Some t \<Rightarrow> if dt_sub now t < one_hour then ''healthy'' else ''unhealthy'')"
  by (simp add: status_entry_def Let_def split: option.splits)

lemma time_since_of_entry:
  "time_since (status_entry s now tp) =
     (case topic_timestamps s tp of
        None \<Rightarrow> ''Never''
      | Some t \<Rightarrow>
          if dt_sub now t \<noteq> 0
          then takeWhile (\<lambda>c. c \<noteq> CHR ''.'') (str_timedelta (dt_sub now t)) else ''Never'')"
  by (simp add: status_entry_def Let_def split: option.splits)

lemma last_seen_of_entry:
  "last_seen (status_entry s now tp) =
     (case topic_timestamps s tp of None \<Rightarrow> ''Never'' | Some t \<Rightarrow> strftime t)"
  by (simp add: status_entry_def Let_def split: option.splits)

text \<open>
  C3. Every topic of the list is classified \<^verbatim>\<open>never_seen\<close> when it has no
  last arrival, \<^verbatim>\<open>healthy\<close> when the time since the last arrival is
  strictly less than one hour (3600 seconds) and \<^verbatim>\<open>unhealthy\<close> otherwise;
  at exactly one hour it is \<^verbatim>\<open>unhealthy\<close>.
\<close>

theorem classification_by_last_arrival:
  "map status (get_status_data s now) =
     map (\<lambda>tp. case topic_timestamps s tp of
                 None \<Rightarrow> ''never_seen''
               | Some t \<Rightarrow> if dt_sub now t < one_hour then ''healthy'' else ''unhealthy'')
       (topics s)
   \<and> total_seconds one_hour = 3600
   \<and> (topic_timestamps s tp = Some t \<and> dt_sub now t = one_hour
        \<longrightarrow> status (status_entry s now tp) = ''unhealthy'')"
  by (simp add: get_status_data_def status_of_entry total_seconds_def one_hour_def)

theorem classification_by_last_arrival_witness:
  "topic_timestamps ex_three ''b'' = Some ex_t90 \<and> dt_sub ex_hour_later ex_t90 = one_hour
   \<and> status (status_entry ex_three ex_hour_later ''b'') = ''unhealthy''
   \<and> map status (get_status_data ex_three ex_hour_later) = [''unhealthy'']"
  using classification_by_last_arrival [of ex_three ex_hour_later "''b''" ex_t90]
  by (simp add: ex_three_timestamp ex_hour_later_delta ex_three_topics)

text \<open>
  C9. When a topic has a last arrival and the status is read at a time equal
  to it, so that the elapsed time is the zero duration, the field
  \<^verbatim>\<open>time_since\<close> is the literal \<^verbatim>\<open>Never\<close>, although \<^verbatim>\<open>last_seen\<close>
  shows the arrival time (which never reads \<^verbatim>\<open>Never\<close>) and the status is
  \<^verbatim>\<open>healthy\<close>: the field is chosen by the truth value of the duration, and
  the zero duration is false.
\<close>

theorem time_since_zero_elapsed:
  "topic_timestamps s tp = Some t \<Longrightarrow> dt_sub now t = 0
     \<Longrightarrow> time_since (status_entry s now tp) = ''Never''
       \<and> last_seen (status_entry s now tp) = strftime t
       \<and> strftime t \<noteq> ''Never''
       \<and> status (status_entry s now tp) = ''healthy''"
  by (simp add: time_since_of_entry last_seen_of_entry status_of_entry strftime_not_Never
      one_hour_def)

theorem time_since_zero_elapsed_witness:
  "topic_timestamps ex_three ''b'' = Some ex_t90 \<and> dt_sub ex_t90 ex_t90 = 0
   \<and> time_since (status_entry ex_three ex_t90 ''b'') = ''Never''
   \<and> last_seen (status_entry ex_three ex_t90 ''b'') = strftime ex_t90
   \<and> status (status_entry ex_three ex_t90 ''b'') = ''healthy''"
  using time_since_zero_elapsed [OF ex_three_timestamp, of ex_t90]
  by (simp add: ex_three_timestamp dt_sub_def)

subsection \<open>Recording arrivals\<close>

lemma record_all_snoc:
  "record_all s (evs @ [(tp, t)]) = on_message (record_all s evs) tp t"
  by (simp add: record_all_def)

lemma on_message_counter:
  "topic_counters (on_message s tp t) tp' =
     (if tp' = tp then Some ((case topic_counters s tp of None \<Rightarrow> 0 | Some c \<Rightarrow> c) + 1)
      else topic_counters s tp')"
  by (simp add: on_message_def Let_def)

lemma on_message_history:
  "topic_message_history (on_message s tp t) tp' =
     (if tp' = tp
      then Some (let h1 = (case topic_message_history s tp of None \<Rightarrow> [] | Some h \<Rightarrow> h) @ [t]
                 in if 100 < length h1 then drop (length h1 - 100) h1 else h1)
      else topic_message_history s tp')"
  by (simp add: on_message_def Let_def max_history_size_def)

lemma on_message_timestamp:
  "topic_timestamps (on_message s tp t) tp' =
     (if tp' = tp then Some t else topic_timestamps s tp')"
  by (simp add: on_message_def Let_def)

lemma on_message_static:
  "topics (on_message s tp t) = topics s"
  "topic_descriptions (on_message s tp t) = topic_descriptions s"
  "topic_types (on_message s tp t) = topic_types s"
  by (simp_all add: on_message_def Let_def)

lemma trim_step:
  "(let h1 = drop (length ts - 100) ts @ [t]
    in if 100 < length h1 then drop (length h1 - 100) h1 else h1)
   = drop (Suc (length ts) - 100) (ts @ [t])"
proof (cases "length ts < 100")
  case True
  then show ?thesis by (simp add: Let_def)
next
  case False
  then have "length (drop (length ts - 100) ts) = 100" by simp
  moreover from False have "Suc (length ts - 100) = length ts - 99" by arith
  ultimately show ?thesis using False by (simp add: Let_def)
qed

lemma record_all_counter_history:
  assumes "topic_counters s tp = None" and "topic_message_history s tp = None"
  shows "topic_counters (record_all s evs) tp =
           (if arrivals_on tp evs = [] then None else Some (int (length (arrivals_on tp evs))))
         \<and> topic_message_history (record_all s evs) tp =
           (if arrivals_on tp evs = [] then None
            else Some (drop (length (arrivals_on tp evs) - 100) (arrivals_on tp evs)))"
proof (induction evs rule: rev_induct)
  case Nil
  show ?case using assms by (simp add: record_all_def arrivals_on_def)
next
  case (snoc e evs)
  obtain tp' t where e: "e = (tp', t)" by (cases e)
  show ?case
  proof (cases "tp' = tp")
    case False
    with snoc e show ?thesis
      by (simp add: record_all_snoc on_message_counter on_message_history arrivals_on_def)
  next
    case True
    have ts: "arrivals_on tp (evs @ [e]) = arrivals_on tp evs @ [t]"
      using True e by (simp add: arrivals_on_def)
    show ?thesis
    proof (cases "arrivals_on tp evs = []")
      case True
      with snoc \<open>tp' = tp\<close> e ts show ?thesis
        by (simp add: record_all_snoc on_message_counter on_message_history Let_def)
    next
      case False
      with snoc \<open>tp' = tp\<close> e ts trim_step [of "arrivals_on tp evs" t] show ?thesis
        by (simp add: record_all_snoc on_message_counter on_message_history)
    qed
  qed
qed

lemma load_item_tracking:
  "topic_counters (load_item s item) = topic_counters s"
  "topic_message_history (load_item s item) = topic_message_history s"
  "topic_timestamps (load_item s item) = topic_timestamps s"
  by (cases item; simp add: Let_def)+

lemma foldl_load_item_tracking:
  "topic_counters (foldl load_item s items) = topic_counters s
   \<and> topic_message_history (foldl load_item s items) = topic_message_history s
   \<and> topic_timestamps (foldl load_item s items) = topic_timestamps s"
  by (induction items arbitrary: s) (simp_all add: load_item_tracking)

lemma load_topics_fresh:
  "topic_counters (load_topics src init_checker) tp = None"
  "topic_message_history (load_topics src init_checker) tp = None"
  "topic_timestamps (load_topics src init_checker) tp = None"
  by (cases src; simp add: load_topics_def foldl_load_item_tracking init_checker_def)+

text \<open>
  C5. Start from the freshly loaded checker and record any sequence of arrivals,
  on this topic and on others in any interleaving. If \<open>k \<ge> 1\<close> of them are on
  the topic, its counter is \<open>k\<close> and its history is the last \<open>min k 100\<close> arrival
  times of the topic in arrival order (all of them up to 100, the last 100
  beyond); the history never has more than 100 entries.
\<close>

theorem counter_and_history_after_k_arrivals:
  "1 \<le> length (arrivals_on tp evs) \<Longrightarrow>
     topic_counters (record_all (load_topics src init_checker) evs) tp
       = Some (int (length (arrivals_on tp evs)))
     \<and> (\<exists>h. topic_message_history (record_all (load_topics src init_checker) evs) tp = Some h
            \<and> h = drop (length (arrivals_on tp evs) - 100) (arrivals_on tp evs)
            \<and> length h = min (length (arrivals_on tp evs)) 100
            \<and> length h \<le> 100)"
  using record_all_counter_history [of "load_topics src init_checker" tp evs]
  by (auto simp: load_topics_fresh)

theorem counter_and_history_after_k_arrivals_witness:
  "1 \<le> length (arrivals_on ''b'' [(''b'', ex_t0), (''a'', ex_t30), (''b'', ex_t90)])
   \<and> topic_counters
        (record_all (load_topics FileNotFound init_checker)
           [(''b'', ex_t0), (''a'', ex_t30), (''b'', ex_t90)]) ''b'' = Some 2
   \<and> topic_message_history
        (record_all (load_topics FileNotFound init_checker)
           [(''b'', ex_t0), (''a'', ex_t30), (''b'', ex_t90)]) ''b'' = Some [ex_t0, ex_t90]"
  using counter_and_history_after_k_arrivals
          [of "''b''" "[(''b'', ex_t0), (''a'', ex_t30), (''b'', ex_t90)]" FileNotFound]
  by (simp add: arrivals_on_def)

subsection \<open>Loading the topics\<close>

lemma load_item_topics:
  "topics (load_item s item) =
     topics s @ (case accepted_topic item of None \<Rightarrow> [] | Some tp \<Rightarrow> [tp])"
  by (cases item) (auto simp: Let_def dict_get_def split: option.splits)

lemma foldl_load_item_topics:
  "topics (foldl load_item s items) = topics s @ List.map_filter accepted_topic items"
proof (induction items arbitrary: s)
  case Nil
  show ?case by (simp add: List.map_filter_simps)
next
  case (Cons item items)
  show ?case
    by (simp add: Cons load_item_topics List.map_filter_simps split: option.splits)
qed

lemma load_item_metadata:
  assumes "\<forall>d. item = ItemDict d \<longrightarrow> dict_get d ''topic'' '''' \<noteq> tp"
  shows "topic_descriptions (load_item s item) tp = topic_descriptions s tp"
    and "topic_types (load_item s item) tp = topic_types s tp"
  using assms by (cases item; simp add: Let_def)+

lemma foldl_load_item_metadata:
  assumes "\<forall>d. ItemDict d \<in> set items \<longrightarrow> dict_get d ''topic'' '''' \<noteq> tp"
  shows "topic_descriptions (foldl load_item s items) tp = topic_descriptions s tp
         \<and> topic_types (foldl load_item s items) tp = topic_types s tp"
  using assms
proof (induction items arbitrary: s)
  case Nil
  show ?case by simp
next
  case (Cons item items)
  have "\<forall>d. item = ItemDict d \<longrightarrow> dict_get d ''topic'' '''' \<noteq> tp"
    using Cons.prems by simp
  then have "topic_descriptions (load_item s item) tp = topic_descriptions s tp"
    "topic_types (load_item s item) tp = topic_types s tp"
    by (rule load_item_metadata)+
  moreover have "\<forall>d. ItemDict d \<in> set items \<longrightarrow> dict_get d ''topic'' '''' \<noteq> tp"
    using Cons.prems by simp
  ultimately show ?case using Cons.IH [of "load_item s item"] by simp
qed

lemma accepted_topic_ItemStr_mem:
  "ItemStr tp \<in> set items \<Longrightarrow> tp \<in> set (List.map_filter accepted_topic items)"
  by (force simp: List.map_filter_def)

lemma display_name_of_entry:
  "display_name (status_entry s now tp) =
     (case topic_descriptions s tp of None \<Rightarrow> tp | Some d \<Rightarrow> d)"
  by (simp add: status_entry_def Let_def split: option.splits)

lemma topic_type_of_entry:
  "topic_type (status_entry s now tp) =
     (case topic_types s tp of None \<Rightarrow> ''unknown'' | Some y \<Rightarrow> y)"
  by (simp add: status_entry_def Let_def split: option.splits)

text \<open>
  C6. When the topics file is missing or is not JSON, \<^verbatim>\<open>load_topics\<close>
  returns normally with an empty list of topics and no metadata. From a
  parsed configuration the topics are, in order, the identifiers of the
  accepted entries: a structured entry whose \<^verbatim>\<open>topic\<close> is missing or empty
  changes nothing, a bare string is appended as it is and records neither a
  description nor a type. So a topic given only as a bare string has no
  description and no type, and its status shows the identifier as display
  name and the type \<^verbatim>\<open>unknown\<close>.
\<close>

theorem load_topics_registry:
  "topics (load_topics FileNotFound s) = [] \<and> topics (load_topics JSONDecodeError s) = []
   \<and> topic_descriptions (load_topics FileNotFound s) = Map.empty
   \<and> topic_descriptions (load_topics JSONDecodeError s) = Map.empty
   \<and> topic_types (load_topics FileNotFound s) = Map.empty
   \<and> topic_types (load_topics JSONDecodeError s) = Map.empty
   \<and> topics (load_topics (Config (Some items)) s) = List.map_filter accepted_topic items
   \<and> (dict_get d ''topic'' '''' = '''' \<longrightarrow> load_item s (ItemDict d) = s)
   \<and> load_item s (ItemStr tp) = s\<lparr>topics := topics s @ [tp]\<rparr>
   \<and> (ItemStr tp \<in> set items
        \<and> (\<forall>d. ItemDict d \<in> set items \<longrightarrow> dict_get d ''topic'' '''' \<noteq> tp)
      \<longrightarrow> tp \<in> set (topics (load_topics (Config (Some items)) s))
        \<and> topic_descriptions (load_topics (Config (Some items)) s) tp = None
        \<and> topic_types (load_topics (Config (Some items)) s) tp = None
        \<and> display_name (status_entry (load_topics (Config (Some items)) s) now tp) = tp
        \<and> topic_type (status_entry (load_topics (Config (Some items)) s) now tp)
            = ''unknown'')"
proof -
  let ?s0 = "s\<lparr>topics := [], topic_descriptions := Map.empty, topic_types := Map.empty\<rparr>"
  have cfg: "load_topics (Config (Some items)) s = foldl load_item ?s0 items"
    by (simp add: load_topics_def)
  have tps: "topics (load_topics (Config (Some items)) s) = List.map_filter accepted_topic items"
    by (simp add: cfg foldl_load_item_topics)
  have legacy: "tp \<in> set (topics (load_topics (Config (Some items)) s))
        \<and> topic_descriptions (load_topics (Config (Some items)) s) tp = None
        \<and> topic_types (load_topics (Config (Some items)) s) tp = None
        \<and> display_name (status_entry (load_topics (Config (Some items)) s) now tp) = tp
        \<and> topic_type (status_entry (load_topics (Config (Some items)) s) now tp)
            = ''unknown''"
    if mem: "ItemStr tp \<in> set items"
      and other: "\<forall>d. ItemDict d \<in> set items \<longrightarrow> dict_get d ''topic'' '''' \<noteq> tp"
  proof -
    have "tp \<in> set (topics (load_topics (Config (Some items)) s))"
      using mem by (simp add: tps accepted_topic_ItemStr_mem)
    moreover have "topic_descriptions (load_topics (Config (Some items)) s) tp = None"
      "topic_types (load_topics (Config (Some items)) s) tp = None"
      using foldl_load_item_metadata [OF other, of ?s0] by (simp_all add: cfg)
    ultimately show ?thesis
      by (simp add: display_name_of_entry topic_type_of_entry)
  qed
  show ?thesis
    using tps legacy by (simp add: load_topics_def)
qed

theorem load_topics_registry_witness:
  "ItemStr ''a'' \<in> set ex_config
   \<and> dict_get [(''description'', ''no topic'')] ''topic'' '''' = ''''
   \<and> topics (load_topics (Config (Some ex_config)) init_checker) = [''a'', ''c'']
   \<and> display_name (status_entry (load_topics (Config (Some ex_config)) init_checker) ex_t0 ''a'')
       = ''a''
   \<and> topic_type (status_entry (load_topics (Config (Some ex_config)) init_checker) ex_t0 ''a'')
       = ''unknown''"
  using load_topics_registry
          [of init_checker ex_config "[(''description'', ''no topic'')]" "''a''" ex_t0]
  by (simp add: ex_config_def dict_get_def List.map_filter_simps)

subsection \<open>Printing and reading numbers\<close>

lemma digit_val_digit_char: "d < 10 \<Longrightarrow> digit_val (digit_char d) = Some d"
  by (simp add: digit_val_def digit_char_def Let_def)

lemma digit_char_neq: "d < 10 \<Longrightarrow> digit_char d \<noteq> CHR ''.'' \<and> digit_char d \<noteq> CHR ''-''"
proof -
  assume "d < 10"
  then have "digit_val (digit_char d) = Some d" by (rule digit_val_digit_char)
  moreover have "digit_val CHR ''.'' = None" "digit_val CHR ''-'' = None"
    by (simp_all add: digit_val_def)
  ultimately show ?thesis by auto
qed

lemma parse_digits_snoc:
  "parse_digits (cs @ [c]) acc =
     (case parse_digits cs acc of
        None \<Rightarrow> None
      | Some a \<Rightarrow> (case digit_val c of None \<Rightarrow> None | Some d \<Rightarrow> Some (10 * a + d)))"
  by (induction cs arbitrary: acc) (auto split: option.splits)

lemma show_nat_nonempty: "show_nat n \<noteq> []"
  by (subst show_nat.simps) simp

lemma parse_digits_show_nat: "parse_digits (show_nat n) 0 = Some n"
proof (induction n rule: show_nat.induct)
  case (1 n)
  show ?case
  proof (cases "n < 10")
    case True
    then show ?thesis by (simp add: show_nat_digit digit_val_digit_char)
  next
    case False
    then have "parse_digits (show_nat (n div 10)) 0 = Some (n div 10)" by (rule "1")
    moreover have "show_nat n = show_nat (n div 10) @ [digit_char (n mod 10)]"
      using False by (subst show_nat.simps) simp
    ultimately show ?thesis
      by (simp add: parse_digits_snoc digit_val_digit_char)
  qed
qed

lemma parse_nat_show_nat: "parse_nat (show_nat n) = Some n"
  by (simp add: parse_nat_def show_nat_nonempty parse_digits_show_nat)

lemma show_nat_chars: "c \<in> set (show_nat n) \<Longrightarrow> c \<noteq> CHR ''.'' \<and> c \<noteq> CHR ''-''"
proof (induction n rule: show_nat.induct)
  case (1 n)
  show ?case
  proof (cases "n < 10")
    case True
    with "1.prems" show ?thesis by (simp add: show_nat_digit digit_char_neq)
  next
    case False
    then have "show_nat n = show_nat (n div 10) @ [digit_char (n mod 10)]"
      by (subst show_nat.simps) simp
    with "1.prems" have "c \<in> set (show_nat (n div 10)) \<or> c = digit_char (n mod 10)" by auto
    then show ?thesis
    proof
      assume "c \<in> set (show_nat (n div 10))"
      with False "1.IH" show ?thesis by blast
    next
      assume "c = digit_char (n mod 10)"
      then show ?thesis by (simp add: digit_char_neq)
    qed
  qed
qed

lemma hd_show_nat: "hd (show_nat n) \<noteq> CHR ''-''"
  using show_nat_chars [of "hd (show_nat n)" n] show_nat_nonempty [of n] by simp

lemma round_half_even_sign:
  "y < 0 \<Longrightarrow> round_half_even y \<le> 0" "0 \<le> y \<Longrightarrow> 0 \<le> round_half_even y"
proof -
  assume "y < 0"
  then have "\<lfloor>y\<rfloor> + 1 \<le> 0" by (simp add: floor_less_iff add1_zle_eq)
  then show "round_half_even y \<le> 0" by (simp add: round_half_even_def Let_def)
next
  assume "0 \<le> y"
  then have "0 \<le> \<lfloor>y\<rfloor>" by simp
  then show "0 \<le> round_half_even y" by (simp add: round_half_even_def Let_def)
qed

lemma py_float_digits:
  assumes "b < 10"
  shows "py_float (show_nat a @ CHR ''.'' # show_nat b) = Inr (of_nat a + of_nat b / 10)"
    and "py_float (CHR ''-'' # show_nat a @ CHR ''.'' # show_nat b)
           = Inr (- (of_nat a + of_nat b / 10))"
proof -
  let ?body = "show_nat a @ CHR ''.'' # show_nat b"
  have nodot: "\<And>c. c \<in> set (show_nat a) \<Longrightarrow> c \<noteq> CHR ''.''"
    using show_nat_chars by blast
  have tw: "takeWhile (\<lambda>c. c \<noteq> CHR ''.'') ?body = show_nat a"
    using nodot by (simp add: takeWhile_append2)
  have dw: "dropWhile (\<lambda>c. c \<noteq> CHR ''.'') ?body = CHR ''.'' # show_nat b"
    using nodot by (simp add: dropWhile_append2)
  have hd: "hd ?body \<noteq> CHR ''-''"
    using hd_show_nat [of a] show_nat_nonempty [of a] by simp
  have lb: "length (show_nat b) = 1" using assms by (simp add: show_nat_digit)
  show "py_float ?body = Inr (of_nat a + of_nat b / 10)"
    by (simp add: py_float_def Let_def tw dw hd parse_nat_show_nat parse_digits_show_nat lb)
  show "py_float (CHR ''-'' # ?body) = Inr (- (of_nat a + of_nat b / 10))"
    by (simp add: py_float_def Let_def tw dw parse_nat_show_nat parse_digits_show_nat lb)
qed

lemma py_float_format_1f: "py_float (format_1f x) = Inr (round_1f x)"
proof -
  let ?r = "round_half_even (x * 10)"
  let ?n = "nat \<bar>?r\<bar>"
  have split: "(of_nat (?n div 10) :: rat) + of_nat (?n mod 10) / 10 = of_nat ?n / 10"
  proof -
    have "(of_nat ?n :: rat) = of_nat (10 * (?n div 10) + ?n mod 10)" by simp
    also have "\<dots> = 10 * of_nat (?n div 10) + of_nat (?n mod 10)"
      by (simp only: of_nat_add of_nat_mult of_nat_numeral)
    finally show ?thesis by simp
  qed
  show ?thesis
  proof (cases "x < 0")
    case True
    then have "?r \<le> 0" by (intro round_half_even_sign) simp
    then have "(of_nat ?n :: rat) = - of_int ?r" by simp
    then show ?thesis
      using True py_float_digits(2) [of "?n mod 10" "?n div 10"] split
      by (simp add: format_1f_def Let_def round_1f_def)
  next
    case False
    then have "0 \<le> ?r" by (intro round_half_even_sign) simp
    then have "(of_nat ?n :: rat) = of_int ?r" by simp
    then show ?thesis
      using False py_float_digits(1) [of "?n mod 10" "?n div 10"] split
      by (simp add: format_1f_def Let_def round_1f_def)
  qed
qed

subsection \<open>Reading the humanized average back\<close>

lemma unit_suffix_not_No_data: "c \<noteq> CHR ''a'' \<Longrightarrow> f @ [c] \<noteq> ''No data''"
proof
  assume c: "c \<noteq> CHR ''a''" and "f @ [c] = ''No data''"
  then have "last (f @ [c]) = last ''No data''" by (rule_tac arg_cong)
  with c show False by simp
qed

lemma avg_interval_to_seconds_No_data: "avg_interval_to_seconds ''No data'' = Inr (PyInt 0)"
  by (simp add: avg_interval_to_seconds_def)

lemma avg_interval_to_seconds_unit:
  "avg_interval_to_seconds (format_1f y @ ''s'') = Inr (PyFloat (round_1f y))"
  "avg_interval_to_seconds (format_1f y @ ''m'') = Inr (PyFloat (round_1f y * 60))"
  "avg_interval_to_seconds (format_1f y @ ''h'') = Inr (PyFloat (round_1f y * 3600))"
  "avg_interval_to_seconds (format_1f y @ ''d'') = Inr (PyFloat (round_1f y * 86400))"
  by (simp_all add: avg_interval_to_seconds_def unit_suffix_not_No_data endswith_def
      py_float_format_1f)

lemma avg_interval_to_seconds_format_interval:
  "avg_interval_to_seconds (format_interval x) = Inr (PyFloat (displayed_seconds x))"
  by (simp add: format_interval_def displayed_seconds_def avg_interval_to_seconds_unit)

lemma avg_interval_to_seconds_calculated:
  "avg_interval_to_seconds (calculate_average_interval s tp) =
     Inr (case topic_message_history s tp of
            None \<Rightarrow> PyInt 0
          | Some ts \<Rightarrow>
              if length ts < 2 then PyInt 0
              else PyFloat (displayed_seconds (mean_consecutive_delta ts)))"
  by (simp add: calculate_average_interval_eq avg_interval_to_seconds_No_data
      avg_interval_to_seconds_format_interval split: option.splits)

subsection \<open>Reading the last arrival back\<close>

lemma digit_char_0: "digit_char 0 = CHR ''0''"
  by code_simp

lemma zero_pad_2:
  "n < 100 \<Longrightarrow> zero_pad 2 n = [digit_char (n div 10), digit_char (n mod 10)]"
  by (cases "n < 10") (simp_all add: zero_pad_def show_nat_digit show_nat_two digit_char_0)

lemma show_nat_three:
  assumes "100 \<le> n" "n < 1000"
  shows "show_nat n = [digit_char (n div 100), digit_char (n div 10 mod 10), digit_char (n mod 10)]"
proof -
  have "10 \<le> n div 10" "n div 10 < 100" using assms by simp_all
  then have "show_nat (n div 10) = [digit_char (n div 10 div 10), digit_char (n div 10 mod 10)]"
    by (rule show_nat_two)
  moreover have "n div 10 div 10 = n div 100" by (simp add: div_mult2_eq [symmetric])
  moreover have "show_nat n = show_nat (n div 10) @ [digit_char (n mod 10)]"
    using assms by (subst show_nat.simps) simp
  ultimately show ?thesis by simp
qed

lemma show_nat_four:
  assumes "1000 \<le> n" "n < 10000"
  shows "show_nat n = [digit_char (n div 1000), digit_char (n div 100 mod 10),
                       digit_char (n div 10 mod 10), digit_char (n mod 10)]"
proof -
  have "100 \<le> n div 10" "n div 10 < 1000" using assms by simp_all
  then have "show_nat (n div 10) = [digit_char (n div 10 div 100),
      digit_char (n div 10 div 10 mod 10), digit_char (n div 10 mod 10)]"
    by (rule show_nat_three)
  moreover have "n div 10 div 100 = n div 1000" "n div 10 div 10 = n div 100"
    by (simp_all add: div_mult2_eq [symmetric])
  moreover have "show_nat n = show_nat (n div 10) @ [digit_char (n mod 10)]"
    using assms by (subst show_nat.simps) simp
  ultimately show ?thesis by simp
qed

lemma zero_pad_4:
  assumes "n < 10000"
  shows "zero_pad 4 n = [digit_char (n div 1000), digit_char (n div 100 mod 10),
                         digit_char (n div 10 mod 10), digit_char (n mod 10)]"
proof -
  have r3: "replicate 3 CHR ''0'' = ''000''" by (simp add: numeral_3_eq_3)
  have r2: "replicate 2 CHR ''0'' = ''00''" by (simp add: numeral_2_eq_2)
  consider "n < 10" | "10 \<le> n" "n < 100" | "100 \<le> n" "n < 1000" | "1000 \<le> n"
    by linarith
  then show ?thesis
  proof cases
    case 1
    then have "zero_pad 4 n = replicate 3 CHR ''0'' @ [digit_char n]"
      by (simp add: zero_pad_def show_nat_digit)
    with 1 show ?thesis by (simp add: r3 digit_char_0)
  next
    case 2
    then have "zero_pad 4 n = replicate 2 CHR ''0'' @ [digit_char (n div 10), digit_char (n mod 10)]"
      by (simp add: zero_pad_def show_nat_two)
    with 2 show ?thesis by (simp add: r2 digit_char_0)
  next
    case 3
    then have "zero_pad 4 n = replicate 1 CHR ''0'' @ show_nat n"
      by (simp add: zero_pad_def show_nat_three)
    with 3 show ?thesis by (simp add: show_nat_three digit_char_0)
  next
    case 4
    then show ?thesis
      using assms by (simp add: zero_pad_def show_nat_four)
  qed
qed

lemma parse_digits_zeros: "parse_digits (replicate k CHR ''0'' @ s) 0 = parse_digits s 0"
  by (induction k) (simp_all add: digit_val_def)

lemma parse_nat_zero_pad: "parse_nat (zero_pad w n) = Some n"
  by (simp add: parse_nat_def zero_pad_def show_nat_nonempty parse_digits_zeros
      parse_digits_show_nat)

lemma parse_nat_two:
  "n < 100 \<Longrightarrow> parse_nat [digit_char (n div 10), digit_char (n mod 10)] = Some n"
  using parse_nat_zero_pad [of 2 n] by (simp add: zero_pad_2)

lemma parse_nat_four:
  "n < 10000 \<Longrightarrow>
     parse_nat [digit_char (n div 1000), digit_char (n div 100 mod 10),
                digit_char (n div 10 mod 10), digit_char (n mod 10)] = Some n"
  using parse_nat_zero_pad [of 4 n] by (simp add: zero_pad_4)

lemma strptime_strftime:
  assumes "valid_datetime t"
  shows "strptime (strftime t) = Inr (t\<lparr>microsecond := 0\<rparr>)"
proof -
  from assms have b: "year t < 10000" "month t < 100" "day t < 100" "hour t < 100"
    "minute t < 100" "second t < 100"
    by (auto simp: valid_datetime_def days_in_month_def nth_Cons' split: if_splits)
  have v: "valid_datetime (t\<lparr>microsecond := 0\<rparr>)"
    using assms by (simp add: valid_datetime_def)
  have t: "\<lparr>year = year t, month = month t, day = day t, hour = hour t, minute = minute t,
            second = second t, microsecond = 0\<rparr> = t\<lparr>microsecond := 0\<rparr>"
    by simp
  have s: "strftime t =
      [digit_char (year t div 1000), digit_char (year t div 100 mod 10),
       digit_char (year t div 10 mod 10), digit_char (year t mod 10), CHR ''-'',
       digit_char (month t div 10), digit_char (month t mod 10), CHR ''-'',
       digit_char (day t div 10), digit_char (day t mod 10), CHR '' '',
       digit_char (hour t div 10), digit_char (hour t mod 10), CHR '':'',
       digit_char (minute t div 10), digit_char (minute t mod 10), CHR '':'',
       digit_char (second t div 10), digit_char (second t mod 10)]"
    by (simp add: strftime_def zero_pad_4 [OF b(1)] zero_pad_2 [OF b(2)] zero_pad_2 [OF b(3)]
      zero_pad_2 [OF b(4)] zero_pad_2 [OF b(5)] zero_pad_2 [OF b(6)])
  show ?thesis
    unfolding s strptime_def
    by (simp add: parse_nat_four [OF b(1)] parse_nat_two [OF b(2)] parse_nat_two [OF b(3)]
          parse_nat_two [OF b(4)] parse_nat_two [OF b(5)] parse_nat_two [OF b(6)] t v)
qed

subsection \<open>The lines of one topic\<close>

lemma entry_fields:
  "topic (status_entry s now tp) = tp"
  "avg_interval (status_entry s now tp) = calculate_average_interval s tp"
  "message_count (status_entry s now tp) = (case topic_counters s tp of None \<Rightarrow> 0 | Some c \<Rightarrow> c)"
  by (simp_all add: status_entry_def Let_def split: option.splits)

lemma last_seen_to_timestamp_entry:
  assumes "\<forall>t. topic_timestamps s tp = Some t \<longrightarrow> valid_datetime t"
  shows "last_seen_to_timestamp timestamp (last_seen (status_entry s now tp)) =
           Inr (case topic_timestamps s tp of
                  None \<Rightarrow> PyInt 0
                | Some t \<Rightarrow> PyFloat (timestamp (t\<lparr>microsecond := 0\<rparr>)))"
proof (cases "topic_timestamps s tp")
  case None
  then show ?thesis by (simp add: last_seen_of_entry last_seen_to_timestamp_def)
next
  case (Some t)
  with assms have "valid_datetime t" by simp
  then have "strptime (strftime t) = Inr (t\<lparr>microsecond := 0\<rparr>)" by (rule strptime_strftime)
  with Some show ?thesis
    by (simp add: last_seen_of_entry last_seen_to_timestamp_def strftime_not_Never)
qed

lemma topic_metrics_of_entry:
  assumes "\<forall>t. topic_timestamps s tp = Some t \<longrightarrow> valid_datetime t"
  shows "topic_metrics timestamp repr (status_entry s now tp) =
     (let v = status_entry s now tp;
          labels = metric_labels tp (display_name v) (topic_type v);
          seen = (case topic_timestamps s tp of
                    None \<Rightarrow> PyInt 0
                  | Some t \<Rightarrow> PyFloat (timestamp (t\<lparr>microsecond := 0\<rparr>)));
          avg = (case topic_message_history s tp of
                   None \<Rightarrow> PyInt 0
                 | Some ts \<Rightarrow>
                     if length ts < 2 then PyInt 0
                     else PyFloat (displayed_seconds (mean_consecutive_delta ts)))
      in Inr ([metric_line ''mqtt_topic_last_seen_timestamp'' labels (num_str repr seen),
               metric_line ''mqtt_topic_message_count'' labels (show_int (message_count v)),
               metric_line ''mqtt_topic_healthy'' labels
                 (show_int (if status v = ''healthy'' then 1 else 0))]
              @ (if num_pos avg
                 then [metric_line ''mqtt_topic_avg_interval_seconds'' labels (num_str repr avg)]
                 else [])))"
  unfolding topic_metrics_def Let_def
  by (simp only: last_seen_to_timestamp_entry [OF assms] entry_fields(1,2)
        avg_interval_to_seconds_calculated sum.case)

lemma metrics_loop_total:
  assumes "\<forall>v \<in> set vs. topic_metrics timestamp repr v = Inr (f v)"
  shows "metrics_loop timestamp repr vs acc = Inr (acc @ concat (map f vs))"
  using assms by (induction vs arbitrary: acc) simp_all

lemma get_metrics_total:
  assumes "\<forall>tp. topic_metrics timestamp repr (status_entry s now tp) = Inr (f tp)"
  shows "get_metrics timestamp repr (Some s) now =
           Inr (join_lines (header_lines @ concat (map f (topics s))) @ [CHR 0x0A])"
proof -
  have "metrics_loop timestamp repr (get_status_data s now) header_lines =
          Inr (header_lines @ concat (map (\<lambda>v. f (topic v)) (get_status_data s now)))"
    by (rule metrics_loop_total) (auto simp: get_status_data_def entry_fields assms)
  moreover have "map (\<lambda>v. f (topic v)) (get_status_data s now) = map f (topics s)"
    by (simp add: get_status_data_def entry_fields comp_def)
  ultimately show ?thesis by (simp add: get_metrics_def)
qed

lemma show_int_0_1: "show_int 0 = ''0''" "show_int 1 = ''1''"
  by (simp_all add: show_int_def show_nat_digit) code_simp+

subsection \<open>The samples in the export\<close>

lemma ex_three_valid: "\<forall>tp t. topic_timestamps ex_three tp = Some t \<longrightarrow> valid_datetime t"
  by (simp add: ex_three_def record_all_def on_message_def init_checker_def Let_def
      valid_datetime_def days_in_month_def is_leap_def ex_t0_def ex_t30_def ex_t90_def)

lemma ex_t90_valid: "valid_datetime ex_t90"
  by (simp add: valid_datetime_def days_in_month_def is_leap_def ex_t90_def)

lemma ex_three_unseen:
  "topic_timestamps ex_three ''zz'' = None" "topic_message_history ex_three ''zz'' = None"
  by (simp_all add: ex_three_def record_all_def on_message_def init_checker_def Let_def)













text \<open>
  C7. For a checker whose arrival times are datetimes as the clock gives them,
  \<^verbatim>\<open>get_metrics\<close> raises nothing: every topic yields its lines, and the
  document is the header and these lines joined, with a newline at the end
  (so is the document without a checker). A topic never seen has the lines
  \<^verbatim>\<open>last_seen_timestamp ... 0\<close> and \<^verbatim>\<open>healthy ... 0\<close>; a topic with fewer
  than two entries in its history has exactly the three lines of the other
  metrics and none for \<^verbatim>\<open>avg_interval_seconds\<close>.
\<close>

theorem metrics_export_total:
  "(\<forall>tp t. topic_timestamps s tp = Some t \<longrightarrow> valid_datetime t) \<Longrightarrow>
     (\<exists>f. (\<forall>tp'. topic_metrics timestamp repr (status_entry s now tp') = Inr (f tp'))
          \<and> get_metrics timestamp repr (Some s) now =
              Inr (join_lines (header_lines @ concat (map f (topics s))) @ [CHR 0x0A]))
     \<and> get_metrics timestamp repr None now =
         Inr (''# No health checker initialized'' @ [CHR 0x0A])
     \<and> (topic_timestamps s tp = None \<longrightarrow>
          (\<exists>l2 rest.
             topic_metrics timestamp repr (status_entry s now tp) =
               Inr (metric_line ''mqtt_topic_last_seen_timestamp''
                      (metric_labels tp (display_name (status_entry s now tp))
                         (topic_type (status_entry s now tp))) ''0''
                    # l2
                    # metric_line ''mqtt_topic_healthy''
                        (metric_labels tp (display_name (status_entry s now tp))
                           (topic_type (status_entry s now tp))) ''0''
                    # rest)))
     \<and> ((case topic_message_history s tp of None \<Rightarrow> True | Some ts \<Rightarrow> length ts < 2) \<longrightarrow>
          (\<exists>v1 v2 v3.
             topic_metrics timestamp repr (status_entry s now tp) =
               Inr [metric_line ''mqtt_topic_last_seen_timestamp''
                      (metric_labels tp (display_name (status_entry s now tp))
                         (topic_type (status_entry s now tp))) v1,
                    metric_line ''mqtt_topic_message_count''
                      (metric_labels tp (display_name (status_entry s now tp))
                         (topic_type (status_entry s now tp))) v2,
                    metric_line ''mqtt_topic_healthy''
                      (metric_labels tp (display_name (status_entry s now tp))
                         (topic_type (status_entry s now tp))) v3]))"
proof -
  assume valid: "\<forall>tp t. topic_timestamps s tp = Some t \<longrightarrow> valid_datetime t"
  then have v: "\<forall>t. topic_timestamps s tp' = Some t \<longrightarrow> valid_datetime t" for tp'
    by simp
  have "\<exists>ls. topic_metrics timestamp repr (status_entry s now tp') = Inr ls" for tp'
    unfolding topic_metrics_of_entry [OF v] Let_def by simp
  then obtain f where f: "\<forall>tp'. topic_metrics timestamp repr (status_entry s now tp') = Inr (f tp')"
    by metis
  have doc: "get_metrics timestamp repr (Some s) now =
       Inr (join_lines (header_lines @ concat (map f (topics s))) @ [CHR 0x0A])"
    using f by (rule get_metrics_total)
  have none: "get_metrics timestamp repr None now =
       Inr (''# No health checker initialized'' @ [CHR 0x0A])"
    by (simp add: get_metrics_def)
  have never: "\<exists>l2 rest.
             topic_metrics timestamp repr (status_entry s now tp) =
               Inr (metric_line ''mqtt_topic_last_seen_timestamp''
                      (metric_labels tp (display_name (status_entry s now tp))
                         (topic_type (status_entry s now tp))) ''0''
                    # l2
                    # metric_line ''mqtt_topic_healthy''
                        (metric_labels tp (display_name (status_entry s now tp))
                           (topic_type (status_entry s now tp))) ''0''
                    # rest)"
    if "topic_timestamps s tp = None"
    unfolding topic_metrics_of_entry [OF v] Let_def
    using that by (simp add: status_of_entry num_str_def show_int_0_1)
  have few: "\<exists>v1 v2 v3.
             topic_metrics timestamp repr (status_entry s now tp) =
               Inr [metric_line ''mqtt_topic_last_seen_timestamp''
                      (metric_labels tp (display_name (status_entry s now tp))
                         (topic_type (status_entry s now tp))) v1,
                    metric_line ''mqtt_topic_message_count''
                      (metric_labels tp (display_name (status_entry s now tp))
                         (topic_type (status_entry s now tp))) v2,
                    metric_line ''mqtt_topic_healthy''
                      (metric_labels tp (display_name (status_entry s now tp))
                         (topic_type (status_entry s now tp))) v3]"
    if "case topic_message_history s tp of None \<Rightarrow> True | Some ts \<Rightarrow> length ts < 2"
    unfolding topic_metrics_of_entry [OF v] Let_def
    using that by (cases "topic_message_history s tp") (auto simp: num_pos_def)
  from f doc none never few show ?thesis by blast
qed

theorem metrics_export_total_witness:
  "topic_timestamps ex_three ''b'' = Some ex_t90 \<and> valid_datetime ex_t90
   \<and> topic_timestamps ex_three ''zz'' = None
   \<and> topic_message_history ex_three ''zz'' = None
   \<and> (\<exists>doc. get_metrics utc_timestamp format_1f (Some ex_three) ex_hour_later
               = Inr (doc @ [CHR 0x0A]))
   \<and> (\<exists>v1 v2 v3.
        topic_metrics utc_timestamp format_1f (status_entry ex_three ex_hour_later ''zz'') =
          Inr [metric_line ''mqtt_topic_last_seen_timestamp''
                 (metric_labels ''zz''
                    (display_name (status_entry ex_three ex_hour_later ''zz''))
                    (topic_type (status_entry ex_three ex_hour_later ''zz''))) v1,
               metric_line ''mqtt_topic_message_count''
                 (metric_labels ''zz''
                    (display_name (status_entry ex_three ex_hour_later ''zz''))
                    (topic_type (status_entry ex_three ex_hour_later ''zz''))) v2,
               metric_line ''mqtt_topic_healthy''
                 (metric_labels ''zz''
                    (display_name (status_entry ex_three ex_hour_later ''zz''))
                    (topic_type (status_entry ex_three ex_hour_later ''zz''))) v3])"
  using metrics_export_total [OF ex_three_valid, of utc_timestamp format_1f ex_hour_later "''zz''"]
  by (auto simp: ex_three_timestamp ex_three_unseen ex_t90_valid)

subsection \<open>The labels\<close>

lemma sanitize_topic_map:
  "sanitize_topic tp =
     map (\<lambda>c. if c \<in> {CHR ''/'', CHR ''-'', CHR ''.'', CHR '':'', CHR '' ''} then CHR ''_'' else c) tp"
  by (simp add: sanitize_topic_def replace_char_def)

lemma sanitize_topic_sample: "sanitize_topic ''sensors/temp one'' = ''sensors_temp_one''"
  by (simp add: sanitize_topic_def replace_char_def)

lemma topic_metrics_labels:
  assumes "topic_metrics timestamp repr v = Inr ls" and "l \<in> set ls"
  shows "\<exists>m val. l = metric_line m (metric_labels (topic v) (display_name v) (topic_type v)) val"
proof -
  obtain a where a: "last_seen_to_timestamp timestamp (last_seen v) = Inr a"
    using assms(1) by (cases "last_seen_to_timestamp timestamp (last_seen v)")
      (simp_all add: topic_metrics_def Let_def)
  obtain b where b: "avg_interval_to_seconds (avg_interval v) = Inr b"
    using assms(1) a by (cases "avg_interval_to_seconds (avg_interval v)")
      (simp_all add: topic_metrics_def Let_def)
  from assms(1) have "ls =
      [metric_line ''mqtt_topic_last_seen_timestamp''
         (metric_labels (topic v) (display_name v) (topic_type v)) (num_str repr a),
       metric_line ''mqtt_topic_message_count''
         (metric_labels (topic v) (display_name v) (topic_type v)) (show_int (message_count v)),
       metric_line ''mqtt_topic_healthy''
         (metric_labels (topic v) (display_name v) (topic_type v))
         (show_int (if status v = ''healthy'' then 1 else 0))]
      @ (if num_pos b
         then [metric_line ''mqtt_topic_avg_interval_seconds''
                 (metric_labels (topic v) (display_name v) (topic_type v)) (num_str repr b)]
         else [])"
    by (simp add: topic_metrics_def Let_def a b)
  with assms(2) show ?thesis by (auto split: if_splits)
qed

lemma ex_sensors_fields:
  "topics ex_sensors = [''sensors/temp one'']"
  "topic_descriptions ex_sensors = Map.empty" "topic_types ex_sensors = Map.empty"
  "topic_timestamps ex_sensors = Map.empty" "topic_counters ex_sensors = Map.empty"
  "topic_message_history ex_sensors = Map.empty"
  by (simp_all add: ex_sensors_def load_topics_def init_checker_def)

lemma ex_sensors_entry:
  "status_entry ex_sensors ex_t0 ''sensors/temp one'' =
     \<lparr>topic = ''sensors/temp one'', display_name = ''sensors/temp one'',
      topic_type = ''unknown'', last_seen = ''Never'', time_since = ''Never'',
      message_count = 0, avg_interval = ''No data'', status = ''never_seen''\<rparr>"
  by (simp add: status_entry_def calculate_average_interval_def ex_sensors_fields)

lemma ex_sensors_lines:
  \<open>topic_metrics utc_timestamp format_1f (status_entry ex_sensors ex_t0 ''sensors/temp one'') =
     Inr [''mqtt_topic_last_seen_timestamp{topic="sensors/temp one",display_name="sensors/temp one",type="unknown"} 0'',
          ''mqtt_topic_message_count{topic="sensors/temp one",display_name="sensors/temp one",type="unknown"} 0'',
          ''mqtt_topic_healthy{topic="sensors/temp one",display_name="sensors/temp one",type="unknown"} 0'']\<close>
  by (simp add: ex_sensors_entry topic_metrics_def last_seen_to_timestamp_def
      avg_interval_to_seconds_def num_pos_def num_str_def show_int_0_1 metric_line_def
      metric_labels_def)

text \<open>
  C1. The export computes a sanitized form of the topic, in which each of the
  characters \<^verbatim>\<open>/ - . :\<close> and the space is replaced by an underscore
  (\<^verbatim>\<open>sensors/temp one\<close> becomes \<^verbatim>\<open>sensors_temp_one\<close>). In every line
  of a topic the labels \<^verbatim>\<open>display_name\<close> and \<^verbatim>\<open>type\<close> carry the display
  name and the type as they are.
\<close>

theorem labels_of_metric_lines:
  \<open>sanitize_topic tp =
     map (\<lambda>c. if c \<in> {CHR ''/'', CHR ''-'', CHR ''.'', CHR '':'', CHR '' ''} then CHR ''_'' else c) tp
   \<and> sanitize_topic ''sensors/temp one'' = ''sensors_temp_one''
   \<and> (topic_metrics timestamp repr v = Inr ls \<and> l \<in> set ls \<longrightarrow>
        (\<exists>m tl val.
           l = m @ ''{topic="'' @ tl @ ''",display_name="'' @ display_name v
                 @ ''",type="'' @ topic_type v @ ''"} '' @ val))\<close>
proof (intro conjI impI)
  show "sanitize_topic tp =
     map (\<lambda>c. if c \<in> {CHR ''/'', CHR ''-'', CHR ''.'', CHR '':'', CHR '' ''} then CHR ''_'' else c) tp"
    by (rule sanitize_topic_map)
  show "sanitize_topic ''sensors/temp one'' = ''sensors_temp_one''"
    by (rule sanitize_topic_sample)
next
  assume "topic_metrics timestamp repr v = Inr ls \<and> l \<in> set ls"
  then obtain m val
    where "l = metric_line m (metric_labels (topic v) (display_name v) (topic_type v)) val"
    using topic_metrics_labels by blast
  then have \<open>l = m @ ''{topic="'' @ topic v @ ''",display_name="'' @ display_name v
                 @ ''",type="'' @ topic_type v @ ''"} '' @ val\<close>
    by (simp add: metric_line_def metric_labels_def)
  then show \<open>\<exists>m tl val.
           l = m @ ''{topic="'' @ tl @ ''",display_name="'' @ display_name v
                 @ ''",type="'' @ topic_type v @ ''"} '' @ val\<close>
    by blast
qed

theorem labels_of_metric_lines_witness:
  \<open>topic_metrics utc_timestamp format_1f (status_entry ex_sensors ex_t0 ''sensors/temp one'') =
     Inr [''mqtt_topic_last_seen_timestamp{topic="sensors/temp one",display_name="sensors/temp one",type="unknown"} 0'',
          ''mqtt_topic_message_count{topic="sensors/temp one",display_name="sensors/temp one",type="unknown"} 0'',
          ex_sensors_healthy_line]
   \<and> ex_sensors_healthy_line
       \<in> set [''mqtt_topic_last_seen_timestamp{topic="sensors/temp one",display_name="sensors/temp one",type="unknown"} 0'',
              ''mqtt_topic_message_count{topic="sensors/temp one",display_name="sensors/temp one",type="unknown"} 0'',
              ex_sensors_healthy_line]
   \<and> (\<exists>m tl val.
         ex_sensors_healthy_line
           = m @ ''{topic="'' @ tl @ ''",display_name="''
               @ display_name (status_entry ex_sensors ex_t0 ''sensors/temp one'')
               @ ''",type="'' @ topic_type (status_entry ex_sensors ex_t0 ''sensors/temp one'')
               @ ''"} '' @ val)\<close>
proof -
  have lines:
    \<open>topic_metrics utc_timestamp format_1f (status_entry ex_sensors ex_t0 ''sensors/temp one'') =
     Inr [''mqtt_topic_last_seen_timestamp{topic="sensors/temp one",display_name="sensors/temp one",type="unknown"} 0'',
          ''mqtt_topic_message_count{topic="sensors/temp one",display_name="sensors/temp one",type="unknown"} 0'',
          ex_sensors_healthy_line]\<close>
    unfolding ex_sensors_healthy_line_def by (rule ex_sensors_lines)
  have mem: \<open>ex_sensors_healthy_line
       \<in> set [''mqtt_topic_last_seen_timestamp{topic="sensors/temp one",display_name="sensors/temp one",type="unknown"} 0'',
              ''mqtt_topic_message_count{topic="sensors/temp one",display_name="sensors/temp one",type="unknown"} 0'',
              ex_sensors_healthy_line]\<close>
    by simp
  from labels_of_metric_lines [of "''x''" utc_timestamp format_1f
      "status_entry ex_sensors ex_t0 ''sensors/temp one''" _ ex_sensors_healthy_line] lines mem
  show ?thesis by blast
qed

text \<open>
  The lines of the topic \<^verbatim>\<open>sensors/temp one\<close> carry the name unchanged in
  the labels \<^verbatim>\<open>topic\<close> and \<^verbatim>\<open>display_name\<close>, not
  \<^verbatim>\<open>sensors_temp_one\<close>: the value of \<^verbatim>\<open>safe_topic\<close> is computed and
  then not used.
\<close>

theorem sanitized_labels_counterexample:
  \<open>topic_metrics utc_timestamp format_1f (status_entry ex_sensors ex_t0 ''sensors/temp one'') =
     Inr [''mqtt_topic_last_seen_timestamp{topic="sensors/temp one",display_name="sensors/temp one",type="unknown"} 0'',
          ''mqtt_topic_message_count{topic="sensors/temp one",display_name="sensors/temp one",type="unknown"} 0'',
          ''mqtt_topic_healthy{topic="sensors/temp one",display_name="sensors/temp one",type="unknown"} 0'']
   \<and> get_metrics utc_timestamp format_1f (Some ex_sensors) ex_t0 =
     Inr (join_lines (header_lines @
       [''mqtt_topic_last_seen_timestamp{topic="sensors/temp one",display_name="sensors/temp one",type="unknown"} 0'',
        ''mqtt_topic_message_count{topic="sensors/temp one",display_name="sensors/temp one",type="unknown"} 0'',
        ''mqtt_topic_healthy{topic="sensors/temp one",display_name="sensors/temp one",type="unknown"} 0''])
       @ [CHR 0x0A])\<close>
  by (simp add: ex_sensors_lines get_metrics_def get_status_data_def ex_sensors_fields(1))

end
